theory Spec2Isabelle
  imports Complex_Main "HOL-Library.Sublist"
begin

section \<open>Strings\<close>

text \<open>
  Python's \<^verbatim>\<open>str\<close> is modelled by \<^typ>\<open>string\<close>. A character outside ASCII is held as
  the bytes of its UTF-8 encoding, so the Chinese literals of the source are written
  byte by byte. All keywords the program looks for are ASCII; an ASCII byte never occurs
  inside the encoding of another character, so containment of a keyword is the same on
  bytes and on code points.
\<close>

definition ascii_uppercase :: string where
  "ascii_uppercase = ''ABCDEFGHIJKLMNOPQRSTUVWXYZ''"

definition ascii_lowercase :: string where
  "ascii_lowercase = ''abcdefghijklmnopqrstuvwxyz''"

text \<open>
  \<^verbatim>\<open>str.lower()\<close>: the letters A to Z go to a to z, every other byte stays. Outside
  ASCII, Python's \<^verbatim>\<open>lower\<close> yields an ASCII letter for two characters only, the Kelvin sign
  (k) and the dotted capital I (i); neither letter occurs in a keyword of the program
  or in "all", so what the program decides from a lower-cased label is the same.
\<close>

definition lower_char :: "char \<Rightarrow> char" where
  "lower_char c =
     (case map_of (zip ascii_uppercase ascii_lowercase) c of
        Some l \<Rightarrow> l
      | None \<Rightarrow> c)"

definition str_lower :: "string \<Rightarrow> string" where
  "str_lower s = map lower_char s"

text \<open>\<^verbatim>\<open>sub in s\<close>: \<open>sub\<close> occurs in \<open>s\<close> as a contiguous run.\<close>

fun starts_with :: "string \<Rightarrow> string \<Rightarrow> bool" where
  "starts_with [] s = True"
| "starts_with (c # cs) [] = False"
| "starts_with (c # cs) (d # ds) = (c = d \<and> starts_with cs ds)"

fun str_contains :: "string \<Rightarrow> string \<Rightarrow> bool" where
  "str_contains sub [] = (sub = [])"
| "str_contains sub (c # cs) = (starts_with sub (c # cs) \<or> str_contains sub cs)"

text \<open>\<^verbatim>\<open>str(n)\<close> for a natural number: its decimal digits.\<close>

definition digit :: "nat \<Rightarrow> char" where
  "digit d = ''0123456789'' ! (d mod 10)"

function str_nat :: "nat \<Rightarrow> string" where
  "str_nat n = (if n < 10 then [digit n] else str_nat (n div 10) @ [digit (n mod 10)])"
  by pat_completeness auto
termination
  by (relation "measure (\<lambda>n. n)") auto

declare str_nat.simps [simp del]

text \<open>
  Python's \<^verbatim>\<open>float\<close> is modelled by \<^typ>\<open>real\<close>: rounding, infinities and NaN are
  outside the model. The format \<^verbatim>\<open>:.2f\<close> prints a minus sign for a negative number and
  the magnitude with two decimals, rounded to the nearest hundredth, a tie going to the
  even one.
\<close>

definition round_half_even :: "real \<Rightarrow> int" where
  "round_half_even x =
     (let f = \<lfloor>x\<rfloor>; r = x - of_int f in
      if r < 1 / 2 then f
      else if 1 / 2 < r then f + 1
      else if even f then f else f + 1)"

definition format_2f :: "real \<Rightarrow> string" where
  "format_2f x =
     (let n = nat (round_half_even (\<bar>x\<bar> * 100)) in
      (if x < 0 then ''-'' else []) @
      str_nat (n div 100) @ ''.'' @ [digit (n mod 100 div 10), digit (n mod 10)])"

text \<open>
  \<^verbatim>\<open>xs[:k]\<close> for an integer \<open>k\<close>: the first \<open>k\<close> elements, and for a negative \<open>k\<close> all but
  the last \<open>-k\<close>.
\<close>

definition slice_to :: "'a list \<Rightarrow> int \<Rightarrow> 'a list" where
  "slice_to xs k =
     (if 0 \<le> k then take (nat k) xs else take (length xs - nat (- k)) xs)"

section \<open>The literals of the source\<close>

text \<open>The placeholder text "initialise" that seeds a fresh index.\<close>

definition lit_init :: string where
  "lit_init =
     [CHR 0xE5, CHR 0x88, CHR 0x9D, CHR 0xE5, CHR 0xA7, CHR 0x8B, CHR 0xE5, CHR 0x8C,
      CHR 0x96]"

text \<open>"knowledge base loaded: ".\<close>

definition lit_loaded :: string where
  "lit_loaded =
     [CHR 0xE6, CHR 0x88, CHR 0x90, CHR 0xE5, CHR 0x8A, CHR 0x9F, CHR 0xE5, CHR 0x8A,
      CHR 0xA0, CHR 0xE8, CHR 0xBD, CHR 0xBD, CHR 0xE7, CHR 0x9F, CHR 0xA5, CHR 0xE8,
      CHR 0xAF, CHR 0x86, CHR 0xE5, CHR 0xBA, CHR 0x93, CHR 0x3A, CHR 0x20]"

text \<open>"loading the vector store failed: ".\<close>

definition lit_load_failed :: string where
  "lit_load_failed =
     [CHR 0xE5, CHR 0x8A, CHR 0xA0, CHR 0xE8, CHR 0xBD, CHR 0xBD, CHR 0xE5, CHR 0x90,
      CHR 0x91, CHR 0xE9, CHR 0x87, CHR 0x8F, CHR 0xE5, CHR 0xAD, CHR 0x98, CHR 0xE5,
      CHR 0x82, CHR 0xA8, CHR 0xE5, CHR 0xA4, CHR 0xB1, CHR 0xE8, CHR 0xB4, CHR 0xA5,
      CHR 0x3A, CHR 0x20]"

text \<open>", a new one will be created".\<close>

definition lit_will_create :: string where
  "lit_will_create =
     [CHR 0xEF, CHR 0xBC, CHR 0x8C, CHR 0xE5, CHR 0xB0, CHR 0x86, CHR 0xE5, CHR 0x88,
      CHR 0x9B, CHR 0xE5, CHR 0xBB, CHR 0xBA, CHR 0xE6, CHR 0x96, CHR 0xB0, CHR 0xE7,
      CHR 0x9A, CHR 0x84]"

text \<open>"searching the knowledge base failed: ".\<close>

definition lit_search_failed :: string where
  "lit_search_failed =
     [CHR 0xE6, CHR 0x90, CHR 0x9C, CHR 0xE7, CHR 0xB4, CHR 0xA2, CHR 0xE7, CHR 0x9F,
      CHR 0xA5, CHR 0xE8, CHR 0xAF, CHR 0x86, CHR 0xE5, CHR 0xBA, CHR 0x93, CHR 0xE5,
      CHR 0xA4, CHR 0xB1, CHR 0xE8, CHR 0xB4, CHR 0xA5, CHR 0x3A, CHR 0x20]"

text \<open>"knowledge base saved: ".\<close>

definition lit_saved :: string where
  "lit_saved =
     [CHR 0xE7, CHR 0x9F, CHR 0xA5, CHR 0xE8, CHR 0xAF, CHR 0x86, CHR 0xE5, CHR 0xBA,
      CHR 0x93, CHR 0xE5, CHR 0xB7, CHR 0xB2, CHR 0xE4, CHR 0xBF, CHR 0x9D, CHR 0xE5,
      CHR 0xAD, CHR 0x98, CHR 0x3A, CHR 0x20]"

text \<open>"knowledge base does not exist: ".\<close>

definition lit_kb_missing :: string where
  "lit_kb_missing =
     [CHR 0xE7, CHR 0x9F, CHR 0xA5, CHR 0xE8, CHR 0xAF, CHR 0x86, CHR 0xE5, CHR 0xBA,
      CHR 0x93, CHR 0xE4, CHR 0xB8, CHR 0x8D, CHR 0xE5, CHR 0xAD, CHR 0x98, CHR 0xE5,
      CHR 0x9C, CHR 0xA8, CHR 0x3A, CHR 0x20]"

text \<open>"found nothing for '", the start of the no-results sentence.\<close>

definition lit_not_found_1 :: string where
  "lit_not_found_1 =
     [CHR 0xE6, CHR 0x9C, CHR 0xAA, CHR 0xE6, CHR 0x89, CHR 0xBE, CHR 0xE5, CHR 0x88,
      CHR 0xB0, CHR 0xE4, CHR 0xB8, CHR 0x8E, CHR 0x20, CHR 0x27]"

text \<open>"' related knowledge", the end of the no-results sentence.\<close>

definition lit_not_found_2 :: string where
  "lit_not_found_2 =
     [CHR 0x27, CHR 0x20, CHR 0xE7, CHR 0x9B, CHR 0xB8, CHR 0xE5, CHR 0x85, CHR 0xB3,
      CHR 0xE7, CHR 0x9A, CHR 0x84, CHR 0xE7, CHR 0x9F, CHR 0xA5, CHR 0xE8, CHR 0xAF,
      CHR 0x86]"

text \<open>"found ", the start of the header.\<close>

definition lit_found_1 :: string where
  "lit_found_1 =
     [CHR 0xE6, CHR 0x89, CHR 0xBE, CHR 0xE5, CHR 0x88, CHR 0xB0, CHR 0x20]"

text \<open>" related items:" and two newlines, the end of the header.\<close>

definition lit_found_2 :: string where
  "lit_found_2 =
     [CHR 0x20, CHR 0xE6, CHR 0x9D, CHR 0xA1, CHR 0xE7, CHR 0x9B, CHR 0xB8, CHR 0xE5,
      CHR 0x85, CHR 0xB3, CHR 0xE7, CHR 0x9F, CHR 0xA5, CHR 0xE8, CHR 0xAF, CHR 0x86,
      CHR 0xEF, CHR 0xBC, CHR 0x9A, CHR 0x0A, CHR 0x0A]"

text \<open>"[knowledge ".\<close>

definition lit_item_1 :: string where
  "lit_item_1 =
     [CHR 0x5B, CHR 0xE7, CHR 0x9F, CHR 0xA5, CHR 0xE8, CHR 0xAF, CHR 0x86, CHR 0x20]"

text \<open>"] (similarity: ".\<close>

definition lit_item_2 :: string where
  "lit_item_2 =
     [CHR 0x5D, CHR 0x20, CHR 0x28, CHR 0xE7, CHR 0x9B, CHR 0xB8, CHR 0xE4, CHR 0xBC,
      CHR 0xBC, CHR 0xE5, CHR 0xBA, CHR 0xA6, CHR 0x3A, CHR 0x20]"

text \<open>The closing parenthesis and a newline.\<close>

definition lit_item_3 :: string where
  "lit_item_3 =
     [CHR 0x29, CHR 0x0A]"

text \<open>"source: ".\<close>

definition lit_source :: string where
  "lit_source =
     [CHR 0xE6, CHR 0x9D, CHR 0xA5, CHR 0xE6, CHR 0xBA, CHR 0x90, CHR 0x3A, CHR 0x20]"

text \<open>"description: ".\<close>

definition lit_desc :: string where
  "lit_desc =
     [CHR 0xE6, CHR 0x8F, CHR 0x8F, CHR 0xE8, CHR 0xBF, CHR 0xB0, CHR 0x3A, CHR 0x20]"

text \<open>"content: ".\<close>

definition lit_content :: string where
  "lit_content =
     [CHR 0xE5, CHR 0x86, CHR 0x85, CHR 0xE5, CHR 0xAE, CHR 0xB9, CHR 0x3A, CHR 0x20]"

section \<open>Topic labels\<close>

text \<open>
  \<^verbatim>\<open>KnowledgeBaseManager.match_knowledge_base\<close>. The method does not read \<^verbatim>\<open>self\<close>.
\<close>

definition match_knowledge_base :: "string \<Rightarrow> string" where
  "match_knowledge_base expert_type =
     (let expert_type_lower = str_lower expert_type in
      if str_contains ''namenode'' expert_type_lower \<or> str_contains ''nn'' expert_type_lower
      then ''NameNodeExpert''
      else if str_contains ''datanode'' expert_type_lower \<or> str_contains ''dn'' expert_type_lower
      then ''DataNodeExpert''
      else if str_contains ''yarn'' expert_type_lower
      then ''YARNExpert''
      else ''HistoryCases'')"




section \<open>Data\<close>

text \<open>
  An instance of Python's \<^verbatim>\<open>Exception\<close>, with the text that \<^verbatim>\<open>str(e)\<close> gives. The
  \<^verbatim>\<open>except Exception\<close> of the source catches every such value. An interrupt or an exit
  of the interpreter, which is no \<^verbatim>\<open>Exception\<close>, is outside the model.
\<close>

datatype exn = Exception string

fun str_exn :: "exn \<Rightarrow> string" where
  "str_exn (Exception msg) = msg"

text \<open>
  \<^verbatim>\<open>langchain.docstore.document.Document\<close>. The metadata dictionary is an association
  list from keys to values.
\<close>

record Document =
  page_content :: string
  metadata :: "(string \<times> string) list"

type_synonym hit = "Document \<times> real"

text \<open>
  What the program acts on outside its own objects: the file system, of a type \<open>'fs\<close> that
  only the libraries read and write, and the records that \<^verbatim>\<open>KnowledgeBase\<close>,
  \<^verbatim>\<open>KnowledgeBaseManager\<close> and the functions of the module give to \<^verbatim>\<open>logging\<close>, oldest
  first. The warnings that the embedder writes while a library call runs are not
  recorded.
\<close>

datatype level = INFO | WARNING | ERROR

record 'fs world =
  files :: 'fs
  logged :: "(level \<times> string) list"

definition logging :: "level \<Rightarrow> string \<Rightarrow> 'fs world \<Rightarrow> 'fs world" where
  "logging lvl msg w = w\<lparr>logged := logged w @ [(lvl, msg)]\<rparr>"

text \<open>
  The libraries the program calls, taken as parameters: \<^verbatim>\<open>os\<close> and the FAISS vector store
  of \<^verbatim>\<open>langchain_community\<close>, which holds the embedder it was built with (an object of
  the class \<^verbatim>\<open>SimpleEmbeddings\<close>) and calls it to embed texts and queries. A vector store
  is a value of a type \<open>'vs\<close>; a call that raises returns \<open>Inl\<close>. \<open>base_dir\<close> is
  \<^verbatim>\<open>os.path.dirname(os.path.dirname(__file__))\<close>.
\<close>

record ('vs, 'fs) library =
  base_dir :: string
  os_path_join :: "string list \<Rightarrow> string"
  os_makedirs :: "string \<Rightarrow> 'fs \<Rightarrow> exn + 'fs"
  os_path_exists :: "string \<Rightarrow> 'fs \<Rightarrow> bool"
  os_listdir :: "string \<Rightarrow> 'fs \<Rightarrow> exn + string list"
  FAISS_load_local :: "string \<Rightarrow> 'fs \<Rightarrow> exn + 'vs"
  FAISS_from_texts :: "string list \<Rightarrow> exn + 'vs"
  vs_index_to_docstore_id :: "'vs \<Rightarrow> nat \<Rightarrow> exn + string"
  vs_delete :: "'vs \<Rightarrow> string list \<Rightarrow> exn + 'vs"
  vs_add_documents :: "'vs \<Rightarrow> Document list \<Rightarrow> exn + 'vs"
  vs_similarity_search_with_score :: "'vs \<Rightarrow> string \<Rightarrow> int \<Rightarrow> exn + hit list"
  vs_save_local :: "'vs \<Rightarrow> string \<Rightarrow> 'fs \<Rightarrow> exn + 'fs"

section \<open>KnowledgeBase\<close>

record 'vs KnowledgeBase =
  kb_name :: string
  kb_path :: string
  vector_store :: 'vs

text \<open>
  \<^verbatim>\<open>KnowledgeBase._load_or_create_vector_store\<close>. \<^verbatim>\<open>os.listdir\<close> is called only when the
  path exists, and outside the \<^verbatim>\<open>try\<close>. The result is the value the method leaves in
  \<^verbatim>\<open>self.vector_store\<close>.
\<close>

definition load_or_create_vector_store ::
  "('vs, 'fs) library \<Rightarrow> string \<Rightarrow> string \<Rightarrow> 'fs world \<Rightarrow> exn + ('vs \<times> 'fs world)" where
  "load_or_create_vector_store lib name path w =
     (let vector_store_path = os_path_join lib [path, ''vector_store''] in
      case (if os_path_exists lib vector_store_path (files w)
            then os_listdir lib vector_store_path (files w) else Inr []) of
        Inl e \<Rightarrow> Inl e
      | Inr names \<Rightarrow>
          (let (loaded, w1) =
             (if names \<noteq> [] then
                (case FAISS_load_local lib vector_store_path (files w) of
                   Inr vs \<Rightarrow> (Some vs, logging INFO (lit_loaded @ name) w)
                 | Inl e \<Rightarrow>
                     (None, logging WARNING (lit_load_failed @ str_exn e @ lit_will_create) w))
              else (None, w))
           in case loaded of
                Some vs \<Rightarrow> Inr (vs, w1)
              | None \<Rightarrow>
                  (case FAISS_from_texts lib [lit_init] of
                     Inl e \<Rightarrow> Inl e
                   | Inr vs0 \<Rightarrow>
                       (case vs_index_to_docstore_id lib vs0 0 of
                          Inl e \<Rightarrow> Inl e
                        | Inr id0 \<Rightarrow>
                            (case vs_delete lib vs0 [id0] of
                               Inl e \<Rightarrow> Inl e
                             | Inr vs \<Rightarrow> Inr (vs, w1))))))"

text \<open>\<^verbatim>\<open>KnowledgeBase.__init__\<close>; \<^verbatim>\<open>kb_path or ...\<close> takes the default for None and for the
  empty string.\<close>

definition KnowledgeBase_init ::
  "('vs, 'fs) library \<Rightarrow> string \<Rightarrow> string option \<Rightarrow> 'fs world
     \<Rightarrow> exn + ('vs KnowledgeBase \<times> 'fs world)" where
  "KnowledgeBase_init lib name path_arg w =
     (let default_path = os_path_join lib [base_dir lib, ''knowledge_base'', name];
          path = (case path_arg of
                    None \<Rightarrow> default_path
                  | Some p \<Rightarrow> if p = [] then default_path else p)
      in case os_makedirs lib path (files w) of
           Inl e \<Rightarrow> Inl e
         | Inr fs1 \<Rightarrow>
             (case load_or_create_vector_store lib name path (w\<lparr>files := fs1\<rparr>) of
                Inl e \<Rightarrow> Inl e
              | Inr (vs, w2) \<Rightarrow>
                  Inr (\<lparr>kb_name = name, kb_path = path, vector_store = vs\<rparr>, w2)))"

text \<open>\<^verbatim>\<open>KnowledgeBase.save\<close>.\<close>

definition save ::
  "('vs, 'fs) library \<Rightarrow> 'vs KnowledgeBase \<Rightarrow> 'fs world \<Rightarrow> exn + 'fs world" where
  "save lib self w =
     (let vector_store_path = os_path_join lib [kb_path self, ''vector_store''] in
      case os_makedirs lib vector_store_path (files w) of
        Inl e \<Rightarrow> Inl e
      | Inr fs1 \<Rightarrow>
          (case vs_save_local lib (vector_store self) vector_store_path fs1 of
             Inl e \<Rightarrow> Inl e
           | Inr fs2 \<Rightarrow> Inr (logging INFO (lit_saved @ kb_name self) (w\<lparr>files := fs2\<rparr>))))"

text \<open>
  \<^verbatim>\<open>KnowledgeBase.add_documents\<close>. The library's \<^verbatim>\<open>add_documents\<close> changes the store in
  place; the model returns the object with its new store.
\<close>

definition add_documents ::
  "('vs, 'fs) library \<Rightarrow> 'vs KnowledgeBase \<Rightarrow> Document list \<Rightarrow> 'fs world
     \<Rightarrow> exn + ('vs KnowledgeBase \<times> 'fs world)" where
  "add_documents lib self documents w =
     (if documents = [] then Inr (self, w)
      else
        case vs_add_documents lib (vector_store self) documents of
          Inl e \<Rightarrow> Inl e
        | Inr vs \<Rightarrow>
            (let self' = self\<lparr>vector_store := vs\<rparr> in
             case save lib self' w of
               Inl e \<Rightarrow> Inl e
             | Inr w' \<Rightarrow> Inr (self', w')))"

text \<open>\<^verbatim>\<open>KnowledgeBase.add_texts\<close>; \<open>metadatas\<close> is \<open>None\<close> when the argument is omitted.\<close>

definition add_texts ::
  "('vs, 'fs) library \<Rightarrow> 'vs KnowledgeBase \<Rightarrow> string list \<Rightarrow> (string \<times> string) list list option
     \<Rightarrow> 'fs world \<Rightarrow> exn + ('vs KnowledgeBase \<times> 'fs world)" where
  "add_texts lib self texts metadatas_arg w =
     (if texts = [] then Inr (self, w)
      else
        let metadatas = (case metadatas_arg of
                           None \<Rightarrow> replicate (length texts) []
                         | Some ms \<Rightarrow> ms);
            documents = [\<lparr>page_content = text, metadata = md\<rparr>. (text, md) \<leftarrow> zip texts metadatas]
        in add_documents lib self documents w)"

text \<open>
  \<^verbatim>\<open>KnowledgeBase.search\<close>. \<open>search_try\<close> is the body of the \<^verbatim>\<open>try\<close>; \<open>search\<close> adds the
  \<^verbatim>\<open>except Exception\<close> handler.
\<close>

definition search_try ::
  "('vs, 'fs) library \<Rightarrow> 'vs KnowledgeBase \<Rightarrow> string \<Rightarrow> int \<Rightarrow> real \<Rightarrow> exn + hit list" where
  "search_try lib self query top_k score_threshold =
     (case vs_similarity_search_with_score lib (vector_store self) query top_k of
        Inl e \<Rightarrow> Inl e
      | Inr results \<Rightarrow>
          Inr [(doc, score). (doc, score) \<leftarrow> results, score \<le> (1 - score_threshold) * 10])"

definition search ::
  "('vs, 'fs) library \<Rightarrow> 'vs KnowledgeBase \<Rightarrow> string \<Rightarrow> int \<Rightarrow> real \<Rightarrow> 'fs world
     \<Rightarrow> exn + (hit list \<times> 'fs world)" where
  "search lib self query top_k score_threshold w =
     (case search_try lib self query top_k score_threshold of
        Inr filtered_results \<Rightarrow> Inr (filtered_results, w)
      | Inl e \<Rightarrow> Inr ([], logging ERROR (lit_search_failed @ str_exn e) w))"

text \<open>
  The sequence \<open>search\<close> returns, without the world: it depends on the store, the query
  and the two numbers only.
\<close>

definition search_results ::
  "('vs, 'fs) library \<Rightarrow> 'vs KnowledgeBase \<Rightarrow> string \<Rightarrow> int \<Rightarrow> real \<Rightarrow> hit list" where
  "search_results lib self query top_k score_threshold =
     (case search_try lib self query top_k score_threshold of
        Inr filtered_results \<Rightarrow> filtered_results
      | Inl e \<Rightarrow> [])"

section \<open>KnowledgeBaseManager\<close>

text \<open>
  The dictionary \<^verbatim>\<open>knowledge_bases\<close> is an association list in insertion order, the
  order in which \<^verbatim>\<open>values()\<close> walks it.
\<close>

record 'vs KnowledgeBaseManager =
  knowledge_bases :: "(string \<times> 'vs KnowledgeBase) list"

definition default_kbs :: "string list" where
  "default_kbs =
     [''NameNodeExpert'', ''DataNodeExpert'', ''YARNExpert'', ''HistoryCases'', ''HadoopDocs'']"

text \<open>\<^verbatim>\<open>KnowledgeBaseManager.get_or_create_kb\<close>.\<close>

definition get_or_create_kb ::
  "('vs, 'fs) library \<Rightarrow> 'vs KnowledgeBaseManager \<Rightarrow> string \<Rightarrow> 'fs world
     \<Rightarrow> exn + ('vs KnowledgeBase \<times> 'vs KnowledgeBaseManager \<times> 'fs world)" where
  "get_or_create_kb lib self name w =
     (case map_of (knowledge_bases self) name of
        Some kb \<Rightarrow> Inr (kb, self, w)
      | None \<Rightarrow>
          (case KnowledgeBase_init lib name None w of
             Inl e \<Rightarrow> Inl e
           | Inr (kb, w') \<Rightarrow>
               Inr (kb, self\<lparr>knowledge_bases := knowledge_bases self @ [(name, kb)]\<rparr>, w')))"

text \<open>The loop of \<^verbatim>\<open>_init_default_knowledge_bases\<close> over the names still to create.\<close>

fun create_kbs ::
  "('vs, 'fs) library \<Rightarrow> string list \<Rightarrow> 'vs KnowledgeBaseManager \<Rightarrow> 'fs world
     \<Rightarrow> exn + ('vs KnowledgeBaseManager \<times> 'fs world)" where
  "create_kbs lib [] self w = Inr (self, w)"
| "create_kbs lib (name # names) self w =
     (case get_or_create_kb lib self name w of
        Inl e \<Rightarrow> Inl e
      | Inr (kb, self', w') \<Rightarrow> create_kbs lib names self' w')"

definition init_default_knowledge_bases ::
  "('vs, 'fs) library \<Rightarrow> 'vs KnowledgeBaseManager \<Rightarrow> 'fs world
     \<Rightarrow> exn + ('vs KnowledgeBaseManager \<times> 'fs world)" where
  "init_default_knowledge_bases lib self w = create_kbs lib default_kbs self w"

text \<open>Every default name is a key of the registry.\<close>

definition defaults_registered :: "'vs KnowledgeBaseManager \<Rightarrow> bool" where
  "defaults_registered self =
     list_all (\<lambda>name. map_of (knowledge_bases self) name \<noteq> None) default_kbs"

text \<open>\<^verbatim>\<open>KnowledgeBaseManager.__init__\<close>.\<close>

definition KnowledgeBaseManager_init ::
  "('vs, 'fs) library \<Rightarrow> 'fs world \<Rightarrow> exn + ('vs KnowledgeBaseManager \<times> 'fs world)" where
  "KnowledgeBaseManager_init lib w =
     init_default_knowledge_bases lib \<lparr>knowledge_bases = []\<rparr> w"

text \<open>
  The loop of \<^verbatim>\<open>search_knowledge\<close> over the collections still to query, extending
  \<open>all_results\<close>.
\<close>

fun search_each ::
  "('vs, 'fs) library \<Rightarrow> 'vs KnowledgeBase list \<Rightarrow> string \<Rightarrow> int \<Rightarrow> real \<Rightarrow> hit list
     \<Rightarrow> 'fs world \<Rightarrow> exn + (hit list \<times> 'fs world)" where
  "search_each lib [] query top_k score_threshold all_results w = Inr (all_results, w)"
| "search_each lib (kb # kbs) query top_k score_threshold all_results w =
     (case search lib kb query top_k score_threshold w of
        Inl e \<Rightarrow> Inl e
      | Inr (results, w') \<Rightarrow>
          search_each lib kbs query top_k score_threshold (all_results @ results) w')"

text \<open>
  \<^verbatim>\<open>KnowledgeBaseManager.search_knowledge\<close>. \<^verbatim>\<open>if kb_name:\<close> is false for \<open>None\<close> and for
  the empty string. \<^verbatim>\<open>list.sort(key=...)\<close> is stable, as \<open>sort_key\<close> is.
\<close>

definition search_knowledge ::
  "('vs, 'fs) library \<Rightarrow> 'vs KnowledgeBaseManager \<Rightarrow> string \<Rightarrow> string option \<Rightarrow> int \<Rightarrow> real
     \<Rightarrow> 'fs world \<Rightarrow> exn + (hit list \<times> 'fs world)" where
  "search_knowledge lib self query kb_name_arg top_k score_threshold w =
     (if (case kb_name_arg of None \<Rightarrow> False | Some name \<Rightarrow> name \<noteq> []) then
        (let name = the kb_name_arg in
         case map_of (knowledge_bases self) name of
           Some kb \<Rightarrow> search lib kb query top_k score_threshold w
         | None \<Rightarrow> Inr ([], logging WARNING (lit_kb_missing @ name) w))
      else
        (case search_each lib (map snd (knowledge_bases self)) query top_k score_threshold [] w of
           Inl e \<Rightarrow> Inl e
         | Inr (all_results, w') \<Rightarrow> Inr (slice_to (sort_key snd all_results) top_k, w')))"

section \<open>The module's global and its entry point\<close>

text \<open>
  The state of the module: the global \<^verbatim>\<open>_kb_manager\<close> and the world.
  \<^verbatim>\<open>get_kb_manager\<close> returns the manager and the state it leaves.
\<close>

type_synonym ('vs, 'fs) module_state = "'vs KnowledgeBaseManager option \<times> 'fs world"

definition get_kb_manager ::
  "('vs, 'fs) library \<Rightarrow> ('vs, 'fs) module_state
     \<Rightarrow> exn + ('vs KnowledgeBaseManager \<times> ('vs, 'fs) module_state)" where
  "get_kb_manager lib s =
     (case fst s of
        None \<Rightarrow>
          (case KnowledgeBaseManager_init lib (snd s) of
             Inl e \<Rightarrow> Inl e
           | Inr (m, w') \<Rightarrow> Inr (m, (Some m, w')))
      | Some m \<Rightarrow> Inr (m, s))"

text \<open>The lines of one result, appended to \<open>knowledge_str\<close> by the body of the loop.\<close>

definition render_item :: "nat \<Rightarrow> hit \<Rightarrow> string" where
  "render_item idx h =
     (let doc = fst h; score = snd h in
      lit_item_1 @ str_nat idx @ lit_item_2 @ format_2f (1 - score) @ lit_item_3 @
      (if metadata doc \<noteq> [] then
         (case map_of (metadata doc) ''source'' of
            Some v \<Rightarrow> lit_source @ v @ [CHR 0x0A]
          | None \<Rightarrow> []) @
         (case map_of (metadata doc) ''desc'' of
            Some v \<Rightarrow> lit_desc @ v @ [CHR 0x0A]
          | None \<Rightarrow> [])
       else []) @
      lit_content @ page_content doc @ [CHR 0x0A, CHR 0x0A])"

text \<open>The loop \<^verbatim>\<open>for idx, (doc, score) in enumerate(results, 1)\<close>.\<close>

fun render_loop :: "string \<Rightarrow> nat \<Rightarrow> hit list \<Rightarrow> string" where
  "render_loop knowledge_str idx [] = knowledge_str"
| "render_loop knowledge_str idx (h # hs) =
     render_loop (knowledge_str @ render_item idx h) (Suc idx) hs"

text \<open>The part of \<^verbatim>\<open>search_diagnosis_knowledge\<close> after the search, under its comment
  "format the answer".\<close>

definition format_results :: "string \<Rightarrow> hit list \<Rightarrow> string" where
  "format_results query results =
     (if results = [] then lit_not_found_1 @ query @ lit_not_found_2
      else render_loop (lit_found_1 @ str_nat (length results) @ lit_found_2) 1 results)"

text \<open>\<^verbatim>\<open>search_diagnosis_knowledge\<close>.\<close>

definition search_diagnosis_knowledge ::
  "('vs, 'fs) library \<Rightarrow> string \<Rightarrow> string \<Rightarrow> int \<Rightarrow> real \<Rightarrow> ('vs, 'fs) module_state
     \<Rightarrow> exn + (string \<times> ('vs, 'fs) module_state)" where
  "search_diagnosis_knowledge lib query expert_type top_k score_threshold s =
     (case get_kb_manager lib s of
        Inl e \<Rightarrow> Inl e
      | Inr (kb_manager, s1) \<Rightarrow>
          (let kb_name = (if str_lower expert_type = ''all'' then None
                          else Some (match_knowledge_base expert_type))
           in case search_knowledge lib kb_manager query kb_name top_k score_threshold (snd s1) of
                Inl e \<Rightarrow> Inl e
              | Inr (results, w2) \<Rightarrow> Inr (format_results query results, (fst s1, w2))))"

section \<open>A small instance of the libraries\<close>

text \<open>
  An in-memory stand-in for the libraries, on which the model is evaluated at concrete
  inputs. A vector store is the list of its entries, each with the distance the index
  reports for it; the file system maps a path to the store saved there. A search for
  fewer than one neighbour raises, as the FAISS index does, and otherwise answers with
  the nearest entries first.
\<close>

type_synonym example_store = "hit list"

type_synonym example_files = "(string \<times> hit list) list"

definition example_library :: "(example_store, example_files) library" where
  "example_library =
     \<lparr>base_dir = ''/app'',
      os_path_join = (\<lambda>parts. foldr (\<lambda>p rest. if rest = [] then p else p @ ''/'' @ rest) parts []),
      os_makedirs = (\<lambda>path fs. Inr fs),
      os_path_exists = (\<lambda>path fs. map_of fs path \<noteq> None),
      os_listdir = (\<lambda>path fs. Inr [''index.faiss'', ''index.pkl'']),
      FAISS_load_local =
        (\<lambda>path fs. case map_of fs path of
                      Some vs \<Rightarrow> Inr vs
                    | None \<Rightarrow> Inl (Exception ''no index'')),
      FAISS_from_texts = (\<lambda>texts. Inr (map (\<lambda>t. (\<lparr>page_content = t, metadata = []\<rparr>, 0)) texts)),
      vs_index_to_docstore_id =
        (\<lambda>vs i. if i < length vs then Inr (str_nat i) else Inl (Exception ''KeyError'')),
      vs_delete = (\<lambda>vs ids. Inr (drop (length ids) vs)),
      vs_add_documents = (\<lambda>vs docs. Inr (vs @ map (\<lambda>d. (d, 1)) docs)),
      vs_similarity_search_with_score =
        (\<lambda>vs query k. if k \<le> 0 then Inl (Exception ''k must be positive'')
                       else Inr (take (nat k) (sort_key snd vs))),
      vs_save_local = (\<lambda>vs path fs. Inr ((path, vs) # fs))\<rparr>"

definition doc_a :: Document where
  "doc_a = \<lparr>page_content = ''check hdfs-site.xml'',
            metadata = [(''source'', ''cases''), (''desc'', ''config'')]\<rparr>"

definition doc_b :: Document where
  "doc_b = \<lparr>page_content = ''increase the heap'', metadata = [(''desc'', ''memory'')]\<rparr>"

definition doc_c :: Document where
  "doc_c = \<lparr>page_content = ''free disk space'', metadata = []\<rparr>"

definition example_kb :: "example_store KnowledgeBase" where
  "example_kb =
     \<lparr>kb_name = ''NameNodeExpert'', kb_path = ''/app/knowledge_base/NameNodeExpert'',
      vector_store = [(doc_a, 1 / 4), (doc_b, 3), (doc_c, 7)]\<rparr>"

definition example_kb2 :: "example_store KnowledgeBase" where
  "example_kb2 =
     \<lparr>kb_name = ''YARNExpert'', kb_path = ''/app/knowledge_base/YARNExpert'',
      vector_store = [(doc_c, 2)]\<rparr>"

definition example_manager :: "example_store KnowledgeBaseManager" where
  "example_manager =
     \<lparr>knowledge_bases = [(''NameNodeExpert'', example_kb), (''YARNExpert'', example_kb2)]\<rparr>"

text \<open>The registry of a fresh module: the five default collections, each empty.\<close>

definition example_fresh_manager :: "example_store KnowledgeBaseManager" where
  "example_fresh_manager =
     \<lparr>knowledge_bases =
        map (\<lambda>name. (name, \<lparr>kb_name = name, kb_path = ''/app/knowledge_base/'' @ name,
                              vector_store = []\<rparr>))
          default_kbs\<rparr>"

definition example_world :: "example_files world" where
  "example_world = \<lparr>files = [], logged = []\<rparr>"

section \<open>Properties of the string operations\<close>



text \<open>The table of \<open>lower_char\<close> adds 32 to the code of a capital letter.\<close>

lemma lower_char_upper:
  "list_all (\<lambda>c. lower_char c = char_of (of_char c + (32 :: nat))) ascii_uppercase"
  by code_simp

lemma lower_char_other:
  assumes "c \<notin> set ascii_uppercase"
  shows "lower_char c = c"
proof -
  from assms have "map_of (zip ascii_uppercase ascii_lowercase) c = None"
    by (simp add: map_of_eq_None_iff ascii_uppercase_def ascii_lowercase_def)
  then show ?thesis by (simp add: lower_char_def)
qed

section \<open>Properties of the topic matching\<close>


section \<open>Properties of the example library\<close>

lemma example_search:
  "vs_similarity_search_with_score example_library vs query k =
     (if k \<le> 0 then Inl (Exception ''k must be positive'')
      else Inr (take (nat k) (sort_key snd vs)))"
  by (simp add: example_library_def)

lemma example_results_kb:
  "search_results example_library example_kb ''disk'' 2 (2 / 5) = [(doc_a, 1 / 4), (doc_b, 3)]"
  by (simp add: search_results_def search_try_def example_search example_kb_def)

lemma example_results_kb2:
  "search_results example_library example_kb2 ''disk'' 2 (2 / 5) = [(doc_c, 2)]"
  by (simp add: search_results_def search_try_def example_search example_kb2_def)


lemma str_lower_namenode: "str_lower ''namenode'' = ''namenode''"
  by (simp add: str_lower_def lower_char_def ascii_uppercase_def ascii_lowercase_def)

lemma match_namenode: "match_knowledge_base ''namenode'' = ''NameNodeExpert''"
  by (simp add: match_knowledge_base_def str_lower_namenode)

lemma str_lower_ALL: "str_lower ''ALL'' = ''all''"
  by (simp add: str_lower_def lower_char_def ascii_uppercase_def ascii_lowercase_def)

lemma get_kb_manager_Some: "get_kb_manager lib (Some m, w) = Inr (m, (Some m, w))"
  by (simp add: get_kb_manager_def)


section \<open>Properties of KnowledgeBase.search\<close>



lemma search_returns:
  "\<exists>w'. search lib self query top_k thr w = Inr (search_results lib self query top_k thr, w')"
  by (simp add: search_def search_results_def split: sum.splits)



text \<open>
  C5. \<open>search\<close> never raises to its caller: it always returns a sequence, and whenever the
  library's search (which embeds the query and asks the index) raises an exception \<open>e\<close>,
  \<open>search\<close> returns the empty sequence and has logged one error record that carries \<open>e\<close>.
\<close>

theorem search_never_raises:
  "(\<exists>hits w'. search lib self query top_k score_threshold w = Inr (hits, w'))
   \<and> (\<forall>e. vs_similarity_search_with_score lib (vector_store self) query top_k = Inl e \<longrightarrow>
          search lib self query top_k score_threshold w =
            Inr ([], logging ERROR (lit_search_failed @ str_exn e) w))"
  by (cases "vs_similarity_search_with_score lib (vector_store self) query top_k")
     (simp_all add: search_def search_try_def)

theorem search_never_raises_witness:
  "vs_similarity_search_with_score example_library (vector_store example_kb) ''disk'' 0 =
     Inl (Exception ''k must be positive'')
   \<and> search example_library example_kb ''disk'' 0 (2 / 5) example_world =
     Inr ([], logging ERROR (lit_search_failed @ ''k must be positive'') example_world)"
proof -
  have h: "vs_similarity_search_with_score example_library (vector_store example_kb) ''disk'' 0 =
     Inl (Exception ''k must be positive'')"
    by (simp add: example_search)
  from search_never_raises [of example_library example_kb "''disk''" 0 "2 / 5" example_world] h
  show ?thesis by simp
qed

section \<open>Properties of KnowledgeBaseManager.search_knowledge\<close>

lemma search_each_returns:
  "\<exists>w'. search_each lib kbs query top_k thr acc w =
     Inr (acc @ concat (map (\<lambda>kb. search_results lib kb query top_k thr) kbs), w')"
proof (induction kbs arbitrary: acc w)
  case Nil
  show ?case by simp
next
  case (Cons kb kbs)
  obtain w1 where s:
    "search lib kb query top_k thr w = Inr (search_results lib kb query top_k thr, w1)"
    using search_returns by blast
  from Cons.IH [of "acc @ search_results lib kb query top_k thr" w1] s
  show ?case by simp
qed

lemma search_knowledge_absent:
  "\<exists>w'. search_knowledge lib self query None top_k thr w =
     Inr (slice_to (sort_key snd
            (concat (map (\<lambda>kb. search_results lib kb query top_k thr)
                       (map snd (knowledge_bases self))))) top_k, w')"
proof -
  obtain w' where "search_each lib (map snd (knowledge_bases self)) query top_k thr [] w =
     Inr ([] @ concat (map (\<lambda>kb. search_results lib kb query top_k thr)
                       (map snd (knowledge_bases self))), w')"
    using search_each_returns by blast
  then show ?thesis by (simp add: search_knowledge_def)
qed

lemma slice_to_nonneg: "0 \<le> k \<Longrightarrow> slice_to xs k = take (nat k) xs"
  by (simp add: slice_to_def)

lemma sorted_slice_to: "sorted (map f xs) \<Longrightarrow> sorted (map f (slice_to xs k))"
  by (simp add: slice_to_def sorted_wrt_take flip: take_map)

text \<open>
  C2. For every query, \<open>top_k\<close> and \<open>score_threshold\<close>, the registry's search with no topic
  name (\<open>None\<close>) returns the concatenation of the search results of every registered
  collection, in the order of registration, sorted ascending by distance and cut by
  \<^verbatim>\<open>[:top_k]\<close>. Here \<open>search_results\<close> is what \<open>search\<close> returns for a collection, in any
  world. The result is sorted by distance and is an initial part of the sorted
  concatenation; for \<open>top_k\<close> of at least zero it is the first \<open>top_k\<close> elements, so at most
  \<open>top_k\<close> elements.
\<close>

theorem search_knowledge_all_merges:
  assumes "merged = sort_key snd
             (concat (map (\<lambda>kb. search_results lib kb query top_k score_threshold)
                        (map snd (knowledge_bases self))))"
  shows "(\<forall>kb w0. \<exists>w1. search lib kb query top_k score_threshold w0 =
            Inr (search_results lib kb query top_k score_threshold, w1))
       \<and> (\<exists>w'. search_knowledge lib self query None top_k score_threshold w =
            Inr (slice_to merged top_k, w'))
       \<and> sorted (map snd (slice_to merged top_k))
       \<and> prefix (slice_to merged top_k) merged
       \<and> (0 \<le> top_k \<longrightarrow> slice_to merged top_k = take (nat top_k) merged
            \<and> length (slice_to merged top_k) \<le> nat top_k)"
proof -
  have "sorted (map snd merged)" using assms by simp
  then have "sorted (map snd (slice_to merged top_k))" by (rule sorted_slice_to)
  moreover have "\<exists>w'. search_knowledge lib self query None top_k score_threshold w =
            Inr (slice_to merged top_k, w')"
    unfolding assms by (rule search_knowledge_absent)
  moreover have "prefix (slice_to merged top_k) merged"
    by (simp add: slice_to_def take_is_prefix)
  ultimately show ?thesis
    using search_returns [of lib _ query top_k score_threshold]
    by (simp add: slice_to_nonneg)
qed

theorem search_knowledge_all_merges_witness:
  "\<exists>w'. search_knowledge example_library example_manager ''disk'' None 2 (2 / 5) example_world =
     Inr ([(doc_a, 1 / 4), (doc_c, 2)], w')"
proof -
  have m: "[(doc_a, 1 / 4), (doc_c, 2), (doc_b, 3 :: real)] = sort_key snd
             (concat (map (\<lambda>kb. search_results example_library kb ''disk'' 2 (2 / 5))
                        (map snd (knowledge_bases example_manager))))"
    by (simp add: example_manager_def example_results_kb example_results_kb2)
  from search_knowledge_all_merges [OF m, of example_world]
  show ?thesis by (simp add: slice_to_def)
qed




section \<open>Properties of search_diagnosis_knowledge\<close>









lemma match_knowledge_base_nonempty: "match_knowledge_base expert_type \<noteq> []"
  by (simp add: match_knowledge_base_def Let_def)

lemma search_knowledge_named:
  "name \<noteq> [] \<Longrightarrow>
   search_knowledge lib self query (Some name) top_k thr w =
     (case map_of (knowledge_bases self) name of
        Some kb \<Rightarrow> search lib kb query top_k thr w
      | None \<Rightarrow> Inr ([], logging WARNING (lit_kb_missing @ name) w))"
  by (simp add: search_knowledge_def)

text \<open>
  C7. With the manager there, \<open>search_diagnosis_knowledge\<close> takes the registry's path for
  an absent topic, which searches every registered collection, exactly when
  \<open>expert_type\<close> lower-cased equals "all": its output then renders the merged results of
  all collections. For every other \<open>expert_type\<close> it maps the label through
  \<open>match_knowledge_base\<close> and its output renders the results of the one collection
  registered under that name, and of no other; were the name not registered, it renders
  the empty result after a warning.
\<close>

theorem search_diagnosis_knowledge_routing:
  assumes "get_kb_manager lib s = Inr (kb_manager, s1)"
  shows "(str_lower expert_type = ''all'' \<longrightarrow>
            (\<exists>w2. search_diagnosis_knowledge lib query expert_type top_k score_threshold s =
               Inr (format_results query
                      (slice_to (sort_key snd
                         (concat (map (\<lambda>kb. search_results lib kb query top_k score_threshold)
                                    (map snd (knowledge_bases kb_manager))))) top_k),
                    (fst s1, w2))))
       \<and> (str_lower expert_type \<noteq> ''all'' \<longrightarrow>
            (\<forall>kb. map_of (knowledge_bases kb_manager) (match_knowledge_base expert_type) = Some kb \<longrightarrow>
               (\<exists>w2. search lib kb query top_k score_threshold (snd s1) =
                        Inr (search_results lib kb query top_k score_threshold, w2)
                    \<and> search_diagnosis_knowledge lib query expert_type top_k score_threshold s =
                        Inr (format_results query
                               (search_results lib kb query top_k score_threshold),
                             (fst s1, w2))))
          \<and> (map_of (knowledge_bases kb_manager) (match_knowledge_base expert_type) = None \<longrightarrow>
               search_diagnosis_knowledge lib query expert_type top_k score_threshold s =
                 Inr (format_results query [],
                      (fst s1, logging WARNING (lit_kb_missing @ match_knowledge_base expert_type)
                                 (snd s1)))))"
proof (intro conjI impI allI)
  assume a: "str_lower expert_type = ''all''"
  obtain w2 where "search_knowledge lib kb_manager query None top_k score_threshold (snd s1) =
     Inr (slice_to (sort_key snd
            (concat (map (\<lambda>kb. search_results lib kb query top_k score_threshold)
                       (map snd (knowledge_bases kb_manager))))) top_k, w2)"
    using search_knowledge_absent by blast
  with a assms show "\<exists>w2. search_diagnosis_knowledge lib query expert_type top_k score_threshold s =
               Inr (format_results query
                      (slice_to (sort_key snd
                         (concat (map (\<lambda>kb. search_results lib kb query top_k score_threshold)
                                    (map snd (knowledge_bases kb_manager))))) top_k),
                    (fst s1, w2))"
    by (simp add: search_diagnosis_knowledge_def)
next
  fix kb
  assume a: "str_lower expert_type \<noteq> ''all''"
    and k: "map_of (knowledge_bases kb_manager) (match_knowledge_base expert_type) = Some kb"
  obtain w2 where w2: "search lib kb query top_k score_threshold (snd s1) =
                        Inr (search_results lib kb query top_k score_threshold, w2)"
    using search_returns by blast
  with a k assms
  have "search_diagnosis_knowledge lib query expert_type top_k score_threshold s =
                        Inr (format_results query
                               (search_results lib kb query top_k score_threshold),
                             (fst s1, w2))"
    by (simp add: search_diagnosis_knowledge_def search_knowledge_named
        match_knowledge_base_nonempty)
  with w2 show "\<exists>w2. search lib kb query top_k score_threshold (snd s1) =
                        Inr (search_results lib kb query top_k score_threshold, w2)
                    \<and> search_diagnosis_knowledge lib query expert_type top_k score_threshold s =
                        Inr (format_results query
                               (search_results lib kb query top_k score_threshold),
                             (fst s1, w2))"
    by blast
next
  assume a: "str_lower expert_type \<noteq> ''all''"
    and k: "map_of (knowledge_bases kb_manager) (match_knowledge_base expert_type) = None"
  with assms show "search_diagnosis_knowledge lib query expert_type top_k score_threshold s =
                 Inr (format_results query [],
                      (fst s1, logging WARNING (lit_kb_missing @ match_knowledge_base expert_type)
                                 (snd s1)))"
    by (simp add: search_diagnosis_knowledge_def search_knowledge_named
        match_knowledge_base_nonempty)
qed

theorem search_diagnosis_knowledge_routing_witness:
  "str_lower ''ALL'' = ''all''
   \<and> (\<exists>w2. search_diagnosis_knowledge example_library ''disk'' ''ALL'' 2 (2 / 5)
                (Some example_manager, example_world) =
              Inr (format_results ''disk'' [(doc_a, 1 / 4), (doc_c, 2)],
                   (Some example_manager, w2)))
   \<and> str_lower ''namenode'' \<noteq> ''all''
   \<and> map_of (knowledge_bases example_manager) (match_knowledge_base ''namenode'') =
         Some example_kb
   \<and> (\<exists>w2. search_diagnosis_knowledge example_library ''disk'' ''namenode'' 2 (2 / 5)
                (Some example_manager, example_world) =
              Inr (format_results ''disk'' [(doc_a, 1 / 4), (doc_b, 3)],
                   (Some example_manager, w2)))"
proof -
  have m: "get_kb_manager example_library (Some example_manager, example_world) =
             Inr (example_manager, (Some example_manager, example_world))"
    by (rule get_kb_manager_Some)
  have a: "str_lower ''ALL'' = ''all''" by (rule str_lower_ALL)
  have n: "str_lower ''namenode'' \<noteq> ''all''" by (simp add: str_lower_namenode)
  have k: "map_of (knowledge_bases example_manager) (match_knowledge_base ''namenode'') =
             Some example_kb"
    by (simp add: match_namenode example_manager_def)
  from search_diagnosis_knowledge_routing [OF m, of "''ALL''" "''disk''" 2 "2 / 5"] a
  have "\<exists>w2. search_diagnosis_knowledge example_library ''disk'' ''ALL'' 2 (2 / 5)
                (Some example_manager, example_world) =
              Inr (format_results ''disk'' [(doc_a, 1 / 4), (doc_c, 2)],
                   (Some example_manager, w2))"
    by (simp add: example_manager_def example_results_kb example_results_kb2 slice_to_def)
  moreover
  from search_diagnosis_knowledge_routing [OF m, of "''namenode''" "''disk''" 2 "2 / 5"] n k
  have "\<exists>w2. search_diagnosis_knowledge example_library ''disk'' ''namenode'' 2 (2 / 5)
                (Some example_manager, example_world) =
              Inr (format_results ''disk'' [(doc_a, 1 / 4), (doc_b, 3)],
                   (Some example_manager, w2))"
    by (auto simp add: example_results_kb)
  ultimately show ?thesis using a n k by blast
qed

section \<open>Properties of add_documents and add_texts\<close>

lemma add_texts_None:
  "add_texts lib self texts None w =
     add_documents lib self (map (\<lambda>t. \<lparr>page_content = t, metadata = []\<rparr>) texts) w"
proof -
  have "zip texts (replicate (length texts) md) = map (\<lambda>t. (t, md)) texts" for md :: "(string \<times> string) list"
    by (induction texts) simp_all
  then show ?thesis
    by (simp add: add_texts_def add_documents_def Let_def comp_def)
qed

lemma add_texts_Some:
  "add_texts lib self texts (Some metadatas) w =
     add_documents lib self
       (map (\<lambda>(t, md). \<lparr>page_content = t, metadata = md\<rparr>) (zip texts metadatas)) w"
proof -
  have "[\<lparr>page_content = text, metadata = md\<rparr>. (text, md) \<leftarrow> xs] =
        map (\<lambda>(t, md). \<lparr>page_content = t, metadata = md\<rparr>) xs" for xs :: "(string \<times> (string \<times> string) list) list"
    by (induction xs) auto
  then show ?thesis
    by (simp add: add_texts_def add_documents_def Let_def)
qed

lemma add_documents_nonempty:
  assumes "documents \<noteq> []"
  shows "(add_documents lib self documents w = Inr (self', w')) =
         (\<exists>vs fs1 fs2.
            vs_add_documents lib (vector_store self) documents = Inr vs
          \<and> os_makedirs lib (os_path_join lib [kb_path self, ''vector_store'']) (files w) = Inr fs1
          \<and> vs_save_local lib vs (os_path_join lib [kb_path self, ''vector_store'']) fs1 = Inr fs2
          \<and> self' = self\<lparr>vector_store := vs\<rparr>
          \<and> w' = logging INFO (lit_saved @ kb_name self) (w\<lparr>files := fs2\<rparr>))"
  using assms
  by (auto simp add: add_documents_def save_def Let_def split: sum.splits)

text \<open>
  C8. \<open>add_documents\<close> on the empty sequence returns the collection and the world as they
  were: nothing is inserted, the files are unchanged and no save is logged. On a
  non-empty sequence it returns exactly when the library's insertion, the creation of the
  store's directory and the library's save all succeed, and then the collection holds the
  store after the insertion and the files are those after saving that store: the save has
  happened when the call returns. \<open>add_texts\<close> hands \<open>add_documents\<close> one entry per pair of
  the zip of texts and metadatas, and one entry with empty metadata per text when the
  metadatas are omitted.
\<close>

theorem add_documents_persists:
  "add_documents lib self [] w = Inr (self, w)
   \<and> (documents \<noteq> [] \<longrightarrow>
        (add_documents lib self documents w = Inr (self', w')) =
        (\<exists>vs fs1 fs2.
            vs_add_documents lib (vector_store self) documents = Inr vs
          \<and> os_makedirs lib (os_path_join lib [kb_path self, ''vector_store'']) (files w) = Inr fs1
          \<and> vs_save_local lib vs (os_path_join lib [kb_path self, ''vector_store'']) fs1 = Inr fs2
          \<and> self' = self\<lparr>vector_store := vs\<rparr>
          \<and> w' = logging INFO (lit_saved @ kb_name self) (w\<lparr>files := fs2\<rparr>)))
   \<and> add_texts lib self texts None w =
        add_documents lib self (map (\<lambda>t. \<lparr>page_content = t, metadata = []\<rparr>) texts) w
   \<and> add_texts lib self texts (Some metadatas) w =
        add_documents lib self
          (map (\<lambda>(t, md). \<lparr>page_content = t, metadata = md\<rparr>) (zip texts metadatas)) w"
  using add_documents_nonempty [of documents lib self w self' w']
  by (simp add: add_texts_None add_texts_Some) (simp add: add_documents_def)

theorem add_documents_persists_witness:
  "[doc_a] \<noteq> []
   \<and> add_documents example_library example_kb2 [doc_a] example_world =
       Inr (example_kb2\<lparr>vector_store := [(doc_c, 2), (doc_a, 1)]\<rparr>,
            logging INFO (lit_saved @ ''YARNExpert'')
              (example_world\<lparr>files :=
                 [(''/app/knowledge_base/YARNExpert/vector_store'', [(doc_c, 2), (doc_a, 1)])]\<rparr>))"
proof -
  have n: "[doc_a] \<noteq> []" by simp
  from add_documents_persists [of example_library example_kb2 example_world "[doc_a]"
      "example_kb2\<lparr>vector_store := [(doc_c, 2), (doc_a, 1)]\<rparr>"
      "logging INFO (lit_saved @ ''YARNExpert'')
         (example_world\<lparr>files :=
            [(''/app/knowledge_base/YARNExpert/vector_store'', [(doc_c, 2), (doc_a, 1)])]\<rparr>)"]
  show ?thesis
    by (simp add: example_library_def example_kb2_def example_world_def)
qed




section \<open>The entry point and the registered collections\<close>

lemma get_or_create_kb_keys:
  assumes "get_or_create_kb lib self name w = Inr (kb, self', w')"
  shows "map_of (knowledge_bases self') name \<noteq> None"
    and "map_of (knowledge_bases self) n \<noteq> None \<Longrightarrow> map_of (knowledge_bases self') n \<noteq> None"
  using assms
  by (auto simp add: get_or_create_kb_def map_add_def split: option.splits sum.splits)

lemma create_kbs_keys:
  assumes "create_kbs lib names self w = Inr (self', w')"
    and "n \<in> set names \<or> map_of (knowledge_bases self) n \<noteq> None"
  shows "map_of (knowledge_bases self') n \<noteq> None"
  using assms
proof (induction names arbitrary: self w)
  case Nil
  then show ?case by simp
next
  case (Cons name names)
  from Cons.prems(1) obtain kb self1 w1 where
    g: "get_or_create_kb lib self name w = Inr (kb, self1, w1)"
    and c: "create_kbs lib names self1 w1 = Inr (self', w')"
    by (auto split: sum.splits)
  from Cons.prems(2) have "n \<in> set names \<or> map_of (knowledge_bases self1) n \<noteq> None"
    using get_or_create_kb_keys [OF g] by auto
  with Cons.IH [OF c] show ?case by blast
qed

lemma KnowledgeBaseManager_init_defaults:
  "KnowledgeBaseManager_init lib w = Inr (self, w') \<Longrightarrow> defaults_registered self"
  unfolding KnowledgeBaseManager_init_def init_default_knowledge_bases_def defaults_registered_def
    list_all_iff
  using create_kbs_keys by blast

lemma get_or_create_kb_defaults:
  "get_or_create_kb lib self name w = Inr (kb, self', w') \<Longrightarrow> defaults_registered self \<Longrightarrow>
   defaults_registered self'"
  unfolding defaults_registered_def list_all_iff
  using get_or_create_kb_keys(2) by blast

lemma get_kb_manager_defaults:
  assumes "get_kb_manager lib s = Inr (kb_manager, s1)"
    and "case fst s of None \<Rightarrow> True | Some m0 \<Rightarrow> defaults_registered m0"
  shows "defaults_registered kb_manager" and "fst s1 = Some kb_manager"
  using assms KnowledgeBaseManager_init_defaults [of lib "snd s"]
  by (auto simp add: get_kb_manager_def split: option.splits sum.splits)

lemma match_knowledge_base_range:
  "match_knowledge_base expert_type \<in>
     {''NameNodeExpert'', ''DataNodeExpert'', ''YARNExpert'', ''HistoryCases''}"
  by (simp add: match_knowledge_base_def Let_def)

lemma match_knowledge_base_default: "match_knowledge_base expert_type \<in> set default_kbs"
  using match_knowledge_base_range [of expert_type] by (auto simp add: default_kbs_def)

lemma search_world:
  "\<exists>hits w'. search lib self query top_k thr w = Inr (hits, w')
     \<and> (w' = w \<or> (\<exists>e. w' = logging ERROR (lit_search_failed @ str_exn e) w))"
  by (auto simp add: search_def split: sum.splits)

text \<open>
  C10. The warn-and-return-empty branch for an unknown topic is not reached through
  \<open>search_diagnosis_knowledge\<close>. Let the module's global be unset, or hold a manager in
  which the default names are registered, as the manager's initialisation leaves it, and
  let the manager be obtained. Then for every \<open>expert_type\<close> that is not "all" when
  lower-cased (the empty label included), the name that \<open>match_knowledge_base\<close> gives is
  one of NameNodeExpert, DataNodeExpert, YARNExpert and HistoryCases, it is a key of the
  registry, the registry's search is the search of the collection registered under it,
  and the call returns the rendering of that collection's results; of its own records it
  has logged at most the error record of that search, and not the warning of the
  unknown-topic branch.
\<close>

theorem entry_point_hits_registered_collection:
  assumes "case fst s of None \<Rightarrow> True | Some m0 \<Rightarrow> defaults_registered m0"
    and "str_lower expert_type \<noteq> ''all''"
    and "get_kb_manager lib s = Inr (kb_manager, s1)"
  shows "match_knowledge_base expert_type \<in>
           {''NameNodeExpert'', ''DataNodeExpert'', ''YARNExpert'', ''HistoryCases''}
       \<and> defaults_registered kb_manager
       \<and> (\<exists>kb results w2.
             map_of (knowledge_bases kb_manager) (match_knowledge_base expert_type) = Some kb
           \<and> search_knowledge lib kb_manager query (Some (match_knowledge_base expert_type))
               top_k score_threshold (snd s1) =
               search lib kb query top_k score_threshold (snd s1)
           \<and> search lib kb query top_k score_threshold (snd s1) = Inr (results, w2)
           \<and> search_diagnosis_knowledge lib query expert_type top_k score_threshold s =
               Inr (format_results query results, (Some kb_manager, w2))
           \<and> (w2 = snd s1 \<or> (\<exists>e. w2 = logging ERROR (lit_search_failed @ str_exn e) (snd s1))))"
proof -
  have d: "defaults_registered kb_manager" and f: "fst s1 = Some kb_manager"
    using get_kb_manager_defaults [OF assms(3) assms(1)] by simp_all
  from d match_knowledge_base_default [of expert_type]
  obtain kb where k: "map_of (knowledge_bases kb_manager) (match_knowledge_base expert_type) = Some kb"
    by (auto simp add: defaults_registered_def list_all_iff)
  obtain results w2 where r: "search lib kb query top_k score_threshold (snd s1) = Inr (results, w2)"
    and l: "w2 = snd s1 \<or> (\<exists>e. w2 = logging ERROR (lit_search_failed @ str_exn e) (snd s1))"
    using search_world [of lib kb query top_k score_threshold "snd s1"] by blast
  have n: "search_knowledge lib kb_manager query (Some (match_knowledge_base expert_type))
               top_k score_threshold (snd s1) =
               search lib kb query top_k score_threshold (snd s1)"
    using k by (simp add: search_knowledge_named match_knowledge_base_nonempty)
  have "search_diagnosis_knowledge lib query expert_type top_k score_threshold s =
               Inr (format_results query results, (Some kb_manager, w2))"
    using assms(2,3) n r f by (simp add: search_diagnosis_knowledge_def)
  with d k n r l match_knowledge_base_range [of expert_type] show ?thesis by blast
qed

lemma example_fresh_get_kb_manager:
  "get_kb_manager example_library (None, example_world) =
     Inr (example_fresh_manager, (Some example_fresh_manager, example_world))"
  by (simp add: get_kb_manager_def KnowledgeBaseManager_init_def
      init_default_knowledge_bases_def default_kbs_def get_or_create_kb_def
      KnowledgeBase_init_def load_or_create_vector_store_def example_library_def
      example_world_def example_fresh_manager_def)

theorem entry_point_hits_registered_collection_witness:
  "str_lower ''namenode'' \<noteq> ''all''
   \<and> get_kb_manager example_library (None, example_world) =
       Inr (example_fresh_manager, (Some example_fresh_manager, example_world))
   \<and> map_of (knowledge_bases example_fresh_manager) (match_knowledge_base ''namenode'') =
       Some \<lparr>kb_name = ''NameNodeExpert'', kb_path = ''/app/knowledge_base/NameNodeExpert'',
             vector_store = []\<rparr>
   \<and> search_diagnosis_knowledge example_library ''disk'' ''namenode'' 3 (2 / 5)
         (None, example_world) =
       Inr (lit_not_found_1 @ ''disk'' @ lit_not_found_2,
            (Some example_fresh_manager, example_world))"
proof -
  have u: "case fst (None :: example_store KnowledgeBaseManager option, example_world) of
             None \<Rightarrow> True | Some m0 \<Rightarrow> defaults_registered m0"
    by simp
  have n: "str_lower ''namenode'' \<noteq> ''all''" by (simp add: str_lower_namenode)
  have k: "map_of (knowledge_bases example_fresh_manager) (match_knowledge_base ''namenode'') =
       Some \<lparr>kb_name = ''NameNodeExpert'', kb_path = ''/app/knowledge_base/NameNodeExpert'',
             vector_store = []\<rparr>"
    by (simp add: match_namenode example_fresh_manager_def default_kbs_def)
  have s: "search example_library
             \<lparr>kb_name = ''NameNodeExpert'', kb_path = ''/app/knowledge_base/NameNodeExpert'',
               vector_store = []\<rparr> ''disk'' 3 (2 / 5) example_world = Inr ([], example_world)"
    by (simp add: search_def search_try_def example_search)
  from entry_point_hits_registered_collection [OF u n example_fresh_get_kb_manager,
      of "''disk''" 3 "2 / 5"] k s
  have "search_diagnosis_knowledge example_library ''disk'' ''namenode'' 3 (2 / 5)
         (None, example_world) =
       Inr (format_results ''disk'' [], (Some example_fresh_manager, example_world))"
    by auto
  then show ?thesis
    using n k example_fresh_get_kb_manager by (simp add: format_results_def)
qed

end
